theory Spec2Isabelle
  imports Main
begin

section \<open>Data model\<close>

text \<open>
  The pane of \<^verbatim>\<open>prompt_toolkit/layout/scrollable_pane.py\<close> works on four
  value classes that it imports: \<^verbatim>\<open>WritePosition\<close>, \<^verbatim>\<open>Point\<close>,
  \<^verbatim>\<open>ScrollOffsets\<close> and \<^verbatim>\<open>Char\<close>. All their numeric fields are Python
  integers, hence \<open>int\<close>. The fields of \<^verbatim>\<open>Point\<close> are called \<^verbatim>\<open>x\<close> and
  \<^verbatim>\<open>y\<close> in the source; they are written \<open>Point_x\<close> and \<open>Point_y\<close> here so that
  \<open>x\<close> and \<open>y\<close> stay available as variables. The field \<^verbatim>\<open>top\<close> of
  \<^verbatim>\<open>ScrollOffsets\<close> is \<open>top_offset\<close>, since \<open>top\<close> is the greatest element of
  an order in HOL.
\<close>

record WritePosition =
  xpos :: int
  ypos :: int
  width :: int
  height :: int

record Point =
  Point_x :: int
  Point_y :: int

record ScrollOffsets =
  top_offset :: int
  bottom :: int

record Char =
  char :: string
  style :: string

text \<open>
  The state of a \<^verbatim>\<open>ScrollablePane\<close> that \<^verbatim>\<open>write_to_screen\<close> and
  \<^verbatim>\<open>_make_window_visible\<close> read or write. The two filters
  \<^verbatim>\<open>keep_cursor_visible\<close> and \<^verbatim>\<open>keep_focused_window_visible\<close> are callables
  in the source, called once per resolution; the record holds the value such a call
  returns. The optional \<^verbatim>\<open>width\<close>/\<^verbatim>\<open>height\<close> overrides are used by the
  dimension negotiation only and are left out. The wrapped \<^verbatim>\<open>content\<close> is part of
  the collaborators below.
\<close>

record ScrollablePane =
  scroll_offsets :: ScrollOffsets
  keep_cursor_visible :: bool
  keep_focused_window_visible :: bool
  max_available_height :: int
  vertical_scroll :: int

section \<open>The scroll resolver: \<^verbatim>\<open>_make_window_visible\<close>\<close>

text \<open>
  Lines 230--231: the maximum allowed scroll range, as the pair
  \<open>(min_scroll, max_scroll)\<close>.
\<close>

definition initial_scroll_range :: "int \<Rightarrow> int \<Rightarrow> int \<times> int" where
  "initial_scroll_range visible_height virtual_height = (0, virtual_height - visible_height)"

text \<open>
  Lines 233--242: the reduction of the range by the cursor of the focused window. The
  cursor position is \<^verbatim>\<open>Optional[Point]\<close>, hence an \<open>option\<close>.
\<close>

definition cursor_scroll_range ::
  "ScrollablePane \<Rightarrow> int \<Rightarrow> Point option \<Rightarrow> int \<times> int \<Rightarrow> int \<times> int" where
  "cursor_scroll_range self visible_height cursor_position r =
     (case r of (min_scroll, max_scroll) \<Rightarrow>
        if keep_cursor_visible self then
          (case cursor_position of
             None \<Rightarrow> (min_scroll, max_scroll)
           | Some p \<Rightarrow>
               let offsets = scroll_offsets self;
                   cpos_min_scroll = Point_y p - visible_height + 1 + bottom offsets;
                   cpos_max_scroll = Point_y p - top_offset offsets
               in (max min_scroll cpos_min_scroll, max 0 (min max_scroll cpos_max_scroll)))
        else (min_scroll, max_scroll))"

text \<open>
  Lines 248--263: the pair \<open>(window_min_scroll, window_max_scroll)\<close> of the focused
  window.
\<close>

definition window_scroll_bounds :: "int \<Rightarrow> WritePosition \<Rightarrow> int \<times> int" where
  "window_scroll_bounds visible_height visible_win_write_pos =
     (if height visible_win_write_pos \<le> visible_height then
        (ypos visible_win_write_pos + height visible_win_write_pos - visible_height,
         ypos visible_win_write_pos)
      else
        (ypos visible_win_write_pos,
         ypos visible_win_write_pos + height visible_win_write_pos - visible_height))"

text \<open>Lines 244--266: the reduction of the range by the focused window.\<close>

definition window_scroll_range ::
  "ScrollablePane \<Rightarrow> int \<Rightarrow> WritePosition \<Rightarrow> int \<times> int \<Rightarrow> int \<times> int" where
  "window_scroll_range self visible_height visible_win_write_pos r =
     (case r of (min_scroll, max_scroll) \<Rightarrow>
        if keep_focused_window_visible self then
          (case window_scroll_bounds visible_height visible_win_write_pos of
             (window_min_scroll, window_max_scroll) \<Rightarrow>
               (max min_scroll window_min_scroll, min max_scroll window_max_scroll))
        else (min_scroll, max_scroll))"

text \<open>Lines 230--266 together: the range after every enabled reduction.\<close>

definition scroll_range ::
  "ScrollablePane \<Rightarrow> int \<Rightarrow> int \<Rightarrow> WritePosition \<Rightarrow> Point option \<Rightarrow> int \<times> int" where
  "scroll_range self visible_height virtual_height visible_win_write_pos cursor_position =
     window_scroll_range self visible_height visible_win_write_pos
       (cursor_scroll_range self visible_height cursor_position
          (initial_scroll_range visible_height virtual_height))"

text \<open>Lines 268--269: an empty range is collapsed onto its upper end.\<close>

definition collapse_scroll_range :: "int \<times> int \<Rightarrow> int \<times> int" where
  "collapse_scroll_range r =
     (case r of (min_scroll, max_scroll) \<Rightarrow>
        if min_scroll > max_scroll then (max_scroll, max_scroll) else (min_scroll, max_scroll))"

text \<open>Lines 271--275: the two clipping statements, in the order of the source.\<close>

definition clip_vertical_scroll :: "int \<times> int \<Rightarrow> int \<Rightarrow> int" where
  "clip_vertical_scroll r vs =
     (case r of (min_scroll, max_scroll) \<Rightarrow>
        let vs1 = (if vs > max_scroll then max_scroll else vs);
            vs2 = (if vs1 < min_scroll then min_scroll else vs1)
        in vs2)"

text \<open>
  The range that the clipping statements use: \<open>scroll_range\<close> after the collapse of
  lines 268--269.
\<close>

definition resolved_scroll_range ::
  "ScrollablePane \<Rightarrow> int \<Rightarrow> int \<Rightarrow> WritePosition \<Rightarrow> Point option \<Rightarrow> int \<times> int" where
  "resolved_scroll_range self visible_height virtual_height visible_win_write_pos cursor_position =
     collapse_scroll_range
       (scroll_range self visible_height virtual_height visible_win_write_pos cursor_position)"

text \<open>
  \<^verbatim>\<open>_make_window_visible\<close> (lines 211--275). The method returns nothing and
  assigns \<^verbatim>\<open>self.vertical_scroll\<close>; the model returns the updated pane.
\<close>

definition make_window_visible ::
  "ScrollablePane \<Rightarrow> int \<Rightarrow> int \<Rightarrow> WritePosition \<Rightarrow> Point option \<Rightarrow> ScrollablePane" where
  "make_window_visible self visible_height virtual_height visible_win_write_pos cursor_position =
     self\<lparr>vertical_scroll :=
       clip_vertical_scroll
         (resolved_scroll_range self visible_height virtual_height
            visible_win_write_pos cursor_position)
         (vertical_scroll self)\<rparr>"

section \<open>Screens and collaborators\<close>

text \<open>
  Modelled from the spec: the class \<^verbatim>\<open>Screen\<close>, whose declaration is not among
  the sources. The pane indexes \<^verbatim>\<open>data_buffer\<close> by row and then by column with
  arbitrary integers and never tests a cell for membership, so the cell buffer is a total
  function (a missing cell reads as the screen's default character). A row of
  \<^verbatim>\<open>zero_width_escapes\<close> is tested with \<^verbatim>\<open>x in ...\<close> before it is read, so
  each row is a partial map. The three registries are dictionaries keyed by window,
  hence maps; \<open>'w\<close> is the type of window identities. The fields \<^verbatim>\<open>width\<close> and
  \<^verbatim>\<open>height\<close> of the source are \<open>screen_width\<close> and \<open>screen_height\<close> here,
  since \<open>width\<close> and \<open>height\<close> are the fields of \<open>WritePosition\<close>.
\<close>

record 'w Screen =
  data_buffer :: "int \<Rightarrow> int \<Rightarrow> Char"
  zero_width_escapes :: "int \<Rightarrow> int \<rightharpoonup> string"
  cursor_positions :: "'w \<rightharpoonup> Point"
  menu_positions :: "'w \<rightharpoonup> Point"
  visible_windows_to_write_positions :: "'w \<rightharpoonup> WritePosition"
  show_cursor :: bool
  screen_width :: int
  screen_height :: int

text \<open>
  What \<^verbatim>\<open>write_to_screen\<close> calls and does not define, taken as parameters:
  \<^item> \<open>content_preferred_height w h\<close> is the \<^verbatim>\<open>preferred\<close> field of
    \<^verbatim>\<open>self.content.preferred_height(w, h)\<close>;
  \<^item> \<open>new_Screen c\<close> is \<^verbatim>\<open>Screen(default_char=c)\<close> and \<open>new_MouseHandlers\<close> is
    \<^verbatim>\<open>MouseHandlers()\<close>, with \<open>'m\<close> the type of mouse-handler tables;
  \<^item> \<open>content_write_to_screen\<close> is \<^verbatim>\<open>self.content.write_to_screen\<close>: it
    mutates the screen and the mouse handlers it is given, so it returns both;
  \<^item> \<open>draw_all_floats\<close> is the method of that name of the temporary screen;
  \<^item> \<open>current_window\<close> is \<^verbatim>\<open>get_app().layout.current_window\<close>.
\<close>

record ('w, 'm) Collaborators =
  content_preferred_height :: "int \<Rightarrow> int \<Rightarrow> int"
  new_Screen :: "Char \<Rightarrow> 'w Screen"
  new_MouseHandlers :: 'm
  content_write_to_screen ::
    "'w Screen \<Rightarrow> 'm \<Rightarrow> WritePosition \<Rightarrow> string \<Rightarrow> bool \<Rightarrow> int option \<Rightarrow> 'w Screen \<times> 'm"
  draw_all_floats :: "'w Screen \<Rightarrow> 'w Screen"
  current_window :: 'w

section \<open>Rendering: \<^verbatim>\<open>write_to_screen\<close>\<close>

text \<open>Lines 105--112: the height of the virtual screen.\<close>

definition virtual_height_of ::
  "('w, 'm) Collaborators \<Rightarrow> ScrollablePane \<Rightarrow> WritePosition \<Rightarrow> int" where
  "virtual_height_of env self write_position =
     (let virtual_height =
            content_preferred_height env (width write_position) (max_available_height self);
          virtual_height = max virtual_height (height write_position);
          virtual_height = min virtual_height (max_available_height self)
      in virtual_height)"

text \<open>
  Lines 116--131: the content is written to a fresh screen with fresh mouse handlers,
  then the floats are drawn. The mouse handlers that the content returns are dropped.
\<close>

definition render_virtual_screen ::
  "('w, 'm) Collaborators \<Rightarrow> ScrollablePane \<Rightarrow> WritePosition \<Rightarrow> string \<Rightarrow> bool \<Rightarrow> int option
     \<Rightarrow> 'w Screen" where
  "render_virtual_screen env self write_position parent_style erase_bg z_index =
     (let virtual_height = virtual_height_of env self write_position;
          virtual_width = width write_position;
          temp_screen = new_Screen env \<lparr>char = '' '', style = parent_style\<rparr>;
          temp_write_position =
            \<lparr>xpos = 0, ypos = 0, width = virtual_width, height = virtual_height\<rparr>;
          temp_mouse_handlers = new_MouseHandlers env;
          (temp_screen, temp_mouse_handlers) =
            content_write_to_screen env temp_screen temp_mouse_handlers temp_write_position
              parent_style erase_bg z_index
      in draw_all_floats env temp_screen)"

text \<open>
  Lines 138--153: the \<^verbatim>\<open>try\<close>/\<^verbatim>\<open>except KeyError\<close>/\<^verbatim>\<open>else\<close> around the
  registry lookup. A missing key is \<open>None\<close> and leaves the pane as it is;
  \<^verbatim>\<open>cursor_positions.get\<close> is the plain map lookup.
\<close>

definition scroll_to_focused_window ::
  "('w, 'm) Collaborators \<Rightarrow> ScrollablePane \<Rightarrow> 'w Screen \<Rightarrow> WritePosition \<Rightarrow> int
     \<Rightarrow> ScrollablePane" where
  "scroll_to_focused_window env self temp_screen write_position virtual_height =
     (let focused_window = current_window env in
      case visible_windows_to_write_positions temp_screen focused_window of
        None \<Rightarrow> self
      | Some visible_win_write_pos \<Rightarrow>
          make_window_visible self (height write_position) virtual_height
            visible_win_write_pos (cursor_positions temp_screen focused_window))"

text \<open>Python's \<^verbatim>\<open>range(n)\<close>: empty when \<open>n \<le> 0\<close>.\<close>

definition range_py :: "int \<Rightarrow> int list" where
  "range_py n = [0..n - 1]"

text \<open>
  Lines 168--171: the body of the inner loop, on the pair of the real screen's row and
  its row of zero-width escapes.
\<close>

definition copy_cell ::
  "int \<Rightarrow> (int \<Rightarrow> Char) \<Rightarrow> (int \<rightharpoonup> string) \<Rightarrow> int
     \<Rightarrow> (int \<Rightarrow> Char) \<times> (int \<rightharpoonup> string) \<Rightarrow> (int \<Rightarrow> Char) \<times> (int \<rightharpoonup> string)" where
  "copy_cell x0 temp_row temp_zero_width_escapes x rz =
     (case rz of (row, zero_width_escapes_row) \<Rightarrow>
        (row(x + x0 := temp_row x),
         (case temp_zero_width_escapes x of
            None \<Rightarrow> zero_width_escapes_row
          | Some e \<Rightarrow> zero_width_escapes_row(x + x0 \<mapsto> e))))"

text \<open>
  Lines 160--171: the body of the outer loop, on the pair of the real screen's cell
  buffer and its table of zero-width escapes.
\<close>

definition copy_line ::
  "'w Screen \<Rightarrow> int \<Rightarrow> WritePosition \<Rightarrow> int
     \<Rightarrow> (int \<Rightarrow> int \<Rightarrow> Char) \<times> (int \<Rightarrow> int \<rightharpoonup> string)
     \<Rightarrow> (int \<Rightarrow> int \<Rightarrow> Char) \<times> (int \<Rightarrow> int \<rightharpoonup> string)" where
  "copy_line temp_screen vs write_position y bz =
     (case bz of (buffer, escapes) \<Rightarrow>
        let temp_row = data_buffer temp_screen (y + vs);
            row = buffer (y + ypos write_position);
            temp_zero_width_escapes = zero_width_escapes temp_screen (y + vs);
            zero_width_escapes_row = escapes (y + ypos write_position);
            (row, zero_width_escapes_row) =
              fold (copy_cell (xpos write_position) temp_row temp_zero_width_escapes)
                (range_py (width write_position)) (row, zero_width_escapes_row)
        in (buffer(y + ypos write_position := row),
            escapes(y + ypos write_position := zero_width_escapes_row)))"

text \<open>Lines 159--171: the two nested loops.\<close>

definition copy_viewport ::
  "'w Screen \<Rightarrow> int \<Rightarrow> WritePosition
     \<Rightarrow> (int \<Rightarrow> int \<Rightarrow> Char) \<times> (int \<Rightarrow> int \<rightharpoonup> string)
     \<Rightarrow> (int \<Rightarrow> int \<Rightarrow> Char) \<times> (int \<Rightarrow> int \<rightharpoonup> string)" where
  "copy_viewport temp_screen vs write_position bz =
     fold (copy_line temp_screen vs write_position) (range_py (height write_position)) bz"

text \<open>
  Lines 178--185 and 192--194, 198--200: the values stored in the real screen's
  registries.
\<close>

definition translate_write_position :: "int \<Rightarrow> int \<Rightarrow> int \<Rightarrow> WritePosition \<Rightarrow> WritePosition" where
  "translate_write_position x0 y0 vs write_pos =
     \<lparr>xpos = xpos write_pos + x0,
      ypos = ypos write_pos + y0 - vs,
      width = width write_pos,
      height = height write_pos\<rparr>"

definition translate_point :: "int \<Rightarrow> int \<Rightarrow> int \<Rightarrow> Point \<Rightarrow> Point" where
  "translate_point x0 y0 vs point =
     \<lparr>Point_x = Point_x point + x0, Point_y = Point_y point + y0 - vs\<rparr>"

text \<open>
  A loop \<^verbatim>\<open>for k, v in src.items(): dst[k] = f(v)\<close>: the keys of a dictionary are
  distinct, so every key of \<open>src\<close> is assigned once and every other key keeps its entry.
\<close>

definition merge_items :: "('v \<Rightarrow> 'v) \<Rightarrow> ('k \<rightharpoonup> 'v) \<Rightarrow> ('k \<rightharpoonup> 'v) \<Rightarrow> ('k \<rightharpoonup> 'v)" where
  "merge_items f src dst = (\<lambda>k. case src k of None \<Rightarrow> dst k | Some v \<Rightarrow> Some (f v))"

text \<open>
  \<^verbatim>\<open>write_to_screen\<close> (lines 95--200). The method mutates the pane and the real
  screen; the model returns both, together with the caller's mouse handlers, which no
  statement of the method touches.
\<close>

definition write_to_screen ::
  "('w, 'm) Collaborators \<Rightarrow> ScrollablePane \<Rightarrow> 'w Screen \<Rightarrow> 'm \<Rightarrow> WritePosition \<Rightarrow> string
     \<Rightarrow> bool \<Rightarrow> int option \<Rightarrow> ScrollablePane \<times> 'w Screen \<times> 'm" where
  "write_to_screen env self screen mouse_handlers write_position parent_style erase_bg z_index =
     (let virtual_height = virtual_height_of env self write_position;
          temp_screen =
            render_virtual_screen env self write_position parent_style erase_bg z_index;
          self = scroll_to_focused_window env self temp_screen write_position virtual_height;
          y0 = ypos write_position;
          x0 = xpos write_position;
          (buffer, escapes) =
            copy_viewport temp_screen (vertical_scroll self) write_position
              (data_buffer screen, zero_width_escapes screen);
          screen = screen\<lparr>data_buffer := buffer, zero_width_escapes := escapes\<rparr>;
          screen = screen\<lparr>screen_width := max (screen_width screen) (x0 + width write_position)\<rparr>;
          screen = screen\<lparr>screen_height := max (screen_height screen) (y0 + height write_position)\<rparr>;
          screen = screen\<lparr>visible_windows_to_write_positions :=
            merge_items (translate_write_position x0 y0 (vertical_scroll self))
              (visible_windows_to_write_positions temp_screen)
              (visible_windows_to_write_positions screen)\<rparr>;
          screen = (if show_cursor temp_screen then screen\<lparr>show_cursor := True\<rparr> else screen);
          screen = screen\<lparr>cursor_positions :=
            merge_items (translate_point x0 y0 (vertical_scroll self))
              (cursor_positions temp_screen) (cursor_positions screen)\<rparr>;
          screen = screen\<lparr>menu_positions :=
            merge_items (translate_point x0 y0 (vertical_scroll self))
              (menu_positions temp_screen) (menu_positions screen)\<rparr>
      in (self, screen, mouse_handlers))"

text \<open>
  The three components of the result of \<^verbatim>\<open>write_to_screen\<close>: the pane, the real
  screen and the caller's mouse handlers after the call.
\<close>

abbreviation pane_after ::
  "('w, 'm) Collaborators \<Rightarrow> ScrollablePane \<Rightarrow> 'w Screen \<Rightarrow> 'm \<Rightarrow> WritePosition \<Rightarrow> string
     \<Rightarrow> bool \<Rightarrow> int option \<Rightarrow> ScrollablePane" where
  "pane_after env self screen mouse_handlers write_position parent_style erase_bg z_index \<equiv>
     fst (write_to_screen env self screen mouse_handlers write_position parent_style erase_bg
            z_index)"

abbreviation screen_after ::
  "('w, 'm) Collaborators \<Rightarrow> ScrollablePane \<Rightarrow> 'w Screen \<Rightarrow> 'm \<Rightarrow> WritePosition \<Rightarrow> string
     \<Rightarrow> bool \<Rightarrow> int option \<Rightarrow> 'w Screen" where
  "screen_after env self screen mouse_handlers write_position parent_style erase_bg z_index \<equiv>
     fst (snd (write_to_screen env self screen mouse_handlers write_position parent_style
                 erase_bg z_index))"

abbreviation mouse_handlers_after ::
  "('w, 'm) Collaborators \<Rightarrow> ScrollablePane \<Rightarrow> 'w Screen \<Rightarrow> 'm \<Rightarrow> WritePosition \<Rightarrow> string
     \<Rightarrow> bool \<Rightarrow> int option \<Rightarrow> 'm" where
  "mouse_handlers_after env self screen mouse_handlers write_position parent_style erase_bg
     z_index \<equiv>
     snd (snd (write_to_screen env self screen mouse_handlers write_position parent_style
                 erase_bg z_index))"

section \<open>Construction\<close>

text \<open>Line 15, and \<^verbatim>\<open>__init__\<close> (lines 50--68) for the fields of the model.\<close>

definition MAX_AVAILABLE_HEIGHT :: int where
  "MAX_AVAILABLE_HEIGHT = 10000"

definition ScrollablePane_init ::
  "ScrollOffsets option \<Rightarrow> bool \<Rightarrow> bool \<Rightarrow> int \<Rightarrow> ScrollablePane" where
  "ScrollablePane_init scroll_offsets_arg keep_cursor keep_window max_height =
     \<lparr>scroll_offsets =
        (case scroll_offsets_arg of None \<Rightarrow> \<lparr>top_offset = 1, bottom = 1\<rparr> | Some s \<Rightarrow> s),
      keep_cursor_visible = keep_cursor,
      keep_focused_window_visible = keep_window,
      max_available_height = max_height,
      vertical_scroll = 0\<rparr>"

text \<open>The pane that \<^verbatim>\<open>ScrollablePane(content)\<close> builds, with every default.\<close>

definition default_pane :: ScrollablePane where
  "default_pane = ScrollablePane_init None True True MAX_AVAILABLE_HEIGHT"

section \<open>A scene with one window\<close>

text \<open>
  Concrete collaborators, on which the theorems below are run. Windows are numbered
  (\<open>nat\<close>) and a mouse-handler table is represented by the number of handlers
  registered in it.
\<close>

text \<open>
  Modelled from the spec: the constructor \<^verbatim>\<open>Screen(default_char=c)\<close>, which is not
  among the sources. It gives a screen filled with the default character, with empty
  registries.
\<close>

definition blank_Screen :: "Char \<Rightarrow> nat Screen" where
  "blank_Screen c =
     \<lparr>data_buffer = (\<lambda>r k. c),
      zero_width_escapes = (\<lambda>r. Map.empty),
      cursor_positions = Map.empty,
      menu_positions = Map.empty,
      visible_windows_to_write_positions = Map.empty,
      show_cursor = False,
      screen_width = 0,
      screen_height = 0\<rparr>"

text \<open>
  A content that draws one window \<open>win\<close> at the position \<open>pos\<close>: it fills the
  rectangle of the window with \<open>#\<close>, puts one zero-width escape on the window's first
  cell, registers the window, and registers the cursor \<open>cur\<close> (with the menu at the same
  point) when there is one. It registers one mouse handler.
\<close>

definition window_content ::
  "nat \<Rightarrow> WritePosition \<Rightarrow> Point option
     \<Rightarrow> nat Screen \<Rightarrow> nat \<Rightarrow> WritePosition \<Rightarrow> string \<Rightarrow> bool \<Rightarrow> int option
     \<Rightarrow> nat Screen \<times> nat" where
  "window_content win pos cur screen mouse_handlers write_position parent_style erase_bg z_index =
     (screen\<lparr>
        data_buffer :=
          (\<lambda>r k. if ypos pos \<le> r \<and> r < ypos pos + height pos
                     \<and> xpos pos \<le> k \<and> k < xpos pos + width pos
                  then \<lparr>char = ''#'', style = parent_style\<rparr>
                  else data_buffer screen r k),
        zero_width_escapes :=
          (zero_width_escapes screen)
            (ypos pos := (zero_width_escapes screen (ypos pos))(xpos pos \<mapsto> ''esc'')),
        visible_windows_to_write_positions :=
          (visible_windows_to_write_positions screen)(win \<mapsto> pos),
        cursor_positions :=
          (case cur of None \<Rightarrow> cursor_positions screen
           | Some p \<Rightarrow> (cursor_positions screen)(win \<mapsto> p)),
        menu_positions :=
          (case cur of None \<Rightarrow> menu_positions screen
           | Some p \<Rightarrow> (menu_positions screen)(win \<mapsto> p))\<rparr>,
      mouse_handlers + 1)"

text \<open>
  The collaborators of a pane whose content prefers the height \<open>pref\<close> and draws the
  window \<open>win\<close>, while the application's focus is on the window \<open>focused\<close>.
\<close>

definition scene ::
  "int \<Rightarrow> nat \<Rightarrow> WritePosition \<Rightarrow> Point option \<Rightarrow> nat \<Rightarrow> (nat, nat) Collaborators" where
  "scene pref win pos cur focused =
     \<lparr>content_preferred_height = (\<lambda>w h. pref),
      new_Screen = blank_Screen,
      new_MouseHandlers = 0,
      content_write_to_screen = window_content win pos cur,
      draw_all_floats = (\<lambda>s. s),
      current_window = focused\<rparr>"

text \<open>
  The inputs of the examples: a viewport of 20 rows and 10 columns at the real position
  \<open>(2, 3)\<close>; a real screen filled with dots; a content of 100 rows whose window 7 has 5
  rows from row 30 on and its cursor at \<open>(3, 31)\<close>, once with the focus on that window
  and once with the focus on a window 8 that the content does not draw.
\<close>

definition viewport :: WritePosition where
  "viewport = \<lparr>xpos = 2, ypos = 3, width = 10, height = 20\<rparr>"

definition dotted_screen :: "nat Screen" where
  "dotted_screen = blank_Screen \<lparr>char = ''.'', style = []\<rparr>"

definition focused_scene :: "(nat, nat) Collaborators" where
  "focused_scene =
     scene 100 7 \<lparr>xpos = 0, ypos = 30, width = 10, height = 5\<rparr>
       (Some \<lparr>Point_x = 3, Point_y = 31\<rparr>) 7"

definition unfocused_scene :: "(nat, nat) Collaborators" where
  "unfocused_scene =
     scene 100 7 \<lparr>xpos = 0, ypos = 30, width = 10, height = 5\<rparr>
       (Some \<lparr>Point_x = 3, Point_y = 31\<rparr>) 8"

section \<open>Properties of the scroll resolver\<close>

lemmas resolver_defs = initial_scroll_range_def cursor_scroll_range_def window_scroll_bounds_def
  window_scroll_range_def scroll_range_def collapse_scroll_range_def clip_vertical_scroll_def
  resolved_scroll_range_def make_window_visible_def

lemmas pane_defs = ScrollablePane_init_def default_pane_def MAX_AVAILABLE_HEIGHT_def

lemma vertical_scroll_make_window_visible:
  "vertical_scroll (make_window_visible self H vh wp cp) =
     clip_vertical_scroll (resolved_scroll_range self H vh wp cp) (vertical_scroll self)"
  by (simp add: make_window_visible_def)

lemma clip_vertical_scroll_bounds:
  "mn \<le> mx \<Longrightarrow>
   mn \<le> clip_vertical_scroll (mn, mx) vs \<and> clip_vertical_scroll (mn, mx) vs \<le> mx"
  by (simp add: clip_vertical_scroll_def Let_def)

lemma clip_vertical_scroll_point: "clip_vertical_scroll (m, m) vs = m"
  by (simp add: clip_vertical_scroll_def Let_def)

lemma collapse_scroll_range_cases:
  "collapse_scroll_range (mn, mx) = (if mx < mn then (mx, mx) else (mn, mx))"
  by (simp add: collapse_scroll_range_def)

lemma cursor_scroll_range_fst: "mn \<le> fst (cursor_scroll_range self H cp (mn, mx))"
  by (cases cp) (simp_all add: cursor_scroll_range_def Let_def)

lemma cursor_scroll_range_snd:
  "0 \<le> mx \<Longrightarrow>
   0 \<le> snd (cursor_scroll_range self H cp (mn, mx))
   \<and> snd (cursor_scroll_range self H cp (mn, mx)) \<le> mx"
  by (cases cp) (simp_all add: cursor_scroll_range_def Let_def)

lemma window_scroll_bounds_snd: "ypos wp \<le> snd (window_scroll_bounds H wp)"
  by (simp add: window_scroll_bounds_def)

lemma window_scroll_range_eq:
  "window_scroll_range self H wp (mn, mx) =
     (if keep_focused_window_visible self
      then (max mn (fst (window_scroll_bounds H wp)), min mx (snd (window_scroll_bounds H wp)))
      else (mn, mx))"
  by (simp add: window_scroll_range_def split: prod.splits)

lemma scroll_range_fst: "0 \<le> fst (scroll_range self H vh wp cp)"
proof -
  obtain a b where c: "cursor_scroll_range self H cp (0, vh - H) = (a, b)"
    by (cases "cursor_scroll_range self H cp (0, vh - H)")
  have "0 \<le> a"
    using cursor_scroll_range_fst [of 0 self H cp "vh - H"] c by simp
  then show ?thesis
    by (simp add: scroll_range_def initial_scroll_range_def c window_scroll_range_eq
        le_max_iff_disj)
qed

lemma scroll_range_snd_le: "H \<le> vh \<Longrightarrow> snd (scroll_range self H vh wp cp) \<le> vh - H"
proof -
  assume h: "H \<le> vh"
  obtain a b where c: "cursor_scroll_range self H cp (0, vh - H) = (a, b)"
    by (cases "cursor_scroll_range self H cp (0, vh - H)")
  have "b \<le> vh - H"
    using cursor_scroll_range_snd [of "vh - H" self H cp 0] c h by simp
  then show ?thesis
    by (simp add: scroll_range_def initial_scroll_range_def c window_scroll_range_eq
        min_le_iff_disj)
qed

lemma scroll_range_snd_ge:
  assumes "H \<le> vh" and "\<not> keep_focused_window_visible self \<or> 0 \<le> ypos wp"
  shows "0 \<le> snd (scroll_range self H vh wp cp)"
proof -
  obtain a b where c: "cursor_scroll_range self H cp (0, vh - H) = (a, b)"
    by (cases "cursor_scroll_range self H cp (0, vh - H)")
  have "0 \<le> b"
    using cursor_scroll_range_snd [of "vh - H" self H cp 0] c assms(1) by simp
  then show ?thesis
    using assms(2) window_scroll_bounds_snd [of wp H]
    by (auto simp add: scroll_range_def initial_scroll_range_def c window_scroll_range_eq)
qed

lemma resolved_scroll_range_nonempty:
  "fst (resolved_scroll_range self H vh wp cp) \<le> snd (resolved_scroll_range self H vh wp cp)"
  by (cases "scroll_range self H vh wp cp")
     (simp add: resolved_scroll_range_def collapse_scroll_range_cases)

lemma resolved_scroll_range_satisfiable:
  "fst (scroll_range self H vh wp cp) \<le> snd (scroll_range self H vh wp cp) \<Longrightarrow>
   resolved_scroll_range self H vh wp cp = scroll_range self H vh wp cp"
  by (cases "scroll_range self H vh wp cp")
     (simp add: resolved_scroll_range_def collapse_scroll_range_cases)

lemma vertical_scroll_in_resolved:
  "fst (resolved_scroll_range self H vh wp cp)
     \<le> vertical_scroll (make_window_visible self H vh wp cp)
   \<and> vertical_scroll (make_window_visible self H vh wp cp)
     \<le> snd (resolved_scroll_range self H vh wp cp)"
proof -
  obtain mn mx where r: "resolved_scroll_range self H vh wp cp = (mn, mx)"
    by (cases "resolved_scroll_range self H vh wp cp")
  have "mn \<le> mx"
    using resolved_scroll_range_nonempty [of self H vh wp cp] r by simp
  from clip_vertical_scroll_bounds [OF this] show ?thesis
    by (simp add: vertical_scroll_make_window_visible r)
qed

lemma scroll_range_window:
  "keep_focused_window_visible self \<Longrightarrow>
   fst (window_scroll_bounds H wp) \<le> fst (scroll_range self H vh wp cp)
   \<and> snd (scroll_range self H vh wp cp) \<le> snd (window_scroll_bounds H wp)"
  by (cases "cursor_scroll_range self H cp (initial_scroll_range H vh)")
     (simp add: scroll_range_def window_scroll_range_eq)

text \<open>
  The resolver stays inside the maximum allowed range \<open>[0, virtual_height -
  visible_height]\<close> when that range is not empty and either the focused window is not
  taken into account or its top row is not negative.
\<close>

lemma make_window_visible_in_range:
  assumes "H \<le> vh"
    and "\<not> keep_focused_window_visible self \<or> 0 \<le> ypos wp"
  shows "0 \<le> vertical_scroll (make_window_visible self H vh wp cp)
       \<and> vertical_scroll (make_window_visible self H vh wp cp) \<le> vh - H"
proof -
  obtain mn mx where r: "scroll_range self H vh wp cp = (mn, mx)"
    by (cases "scroll_range self H vh wp cp")
  have 1: "0 \<le> mn"
    using scroll_range_fst [of self H vh wp cp] r by simp
  have 2: "mx \<le> vh - H"
    using scroll_range_snd_le [OF assms(1), of self wp cp] r by simp
  have 3: "0 \<le> mx"
    using scroll_range_snd_ge [OF assms, of cp] r by simp
  show ?thesis
  proof (cases "mx < mn")
    case True
    then show ?thesis
      using 2 3
      by (simp add: vertical_scroll_make_window_visible resolved_scroll_range_def r
          collapse_scroll_range_cases clip_vertical_scroll_point)
  next
    case False
    then have "mn \<le> mx" by simp
    from clip_vertical_scroll_bounds [OF this, of "vertical_scroll self"] False 1 2
    show ?thesis
      by (simp add: vertical_scroll_make_window_visible resolved_scroll_range_def r
          collapse_scroll_range_cases)
  qed
qed

text \<open>
  Claim C3. With \<^verbatim>\<open>keep_cursor_visible\<close> on and a cursor in row \<open>cy\<close>, the range
  \<open>(min_scroll, max_scroll)\<close> becomes
  \<open>(max min_scroll (cy - visible_height + 1 + bottom), max 0 (min max_scroll (cy - top)))\<close>.
  For a virtual height of 100, a visible height of 20, the offsets \<open>{1, 1}\<close> and a cursor
  in row 50, the range is \<open>[32, 49]\<close>, both when the window policy is off and when it is
  on with a window that does not narrow the range, and the scroll 0 of a new pane
  resolves to 32.
\<close>

theorem cursor_scroll_range_narrows:
  "cursor_scroll_range (self\<lparr>keep_cursor_visible := True\<rparr>) H (Some p) (mn, mx) =
     (max mn (Point_y p - H + 1 + bottom (scroll_offsets self)),
      max 0 (min mx (Point_y p - top_offset (scroll_offsets self))))
   \<and> scroll_range (ScrollablePane_init None True False m) 20 100 wp
       (Some \<lparr>Point_x = cx, Point_y = 50\<rparr>) = (32, 49)
   \<and> scroll_range (ScrollablePane_init None True True m) 20 100
       \<lparr>xpos = 0, ypos = 0, width = w, height = 100\<rparr>
       (Some \<lparr>Point_x = cx, Point_y = 50\<rparr>) = (32, 49)
   \<and> vertical_scroll (make_window_visible (ScrollablePane_init None True False m) 20 100 wp
       (Some \<lparr>Point_x = cx, Point_y = 50\<rparr>)) = 32"
  by (simp add: resolver_defs ScrollablePane_init_def Let_def)

lemma resolved_scroll_range_ends:
  "snd (resolved_scroll_range self H vh wp cp) = snd (scroll_range self H vh wp cp)
   \<and> fst (resolved_scroll_range self H vh wp cp) =
       (if snd (scroll_range self H vh wp cp) < fst (scroll_range self H vh wp cp)
        then snd (scroll_range self H vh wp cp) else fst (scroll_range self H vh wp cp))"
  by (cases "scroll_range self H vh wp cp")
     (simp add: resolved_scroll_range_def collapse_scroll_range_cases)

lemma scroll_range_with_window:
  "keep_focused_window_visible self \<Longrightarrow>
   scroll_range self H vh wp cp =
     (max (fst (cursor_scroll_range self H cp (initial_scroll_range H vh)))
          (fst (window_scroll_bounds H wp)),
      min (snd (cursor_scroll_range self H cp (initial_scroll_range H vh)))
          (snd (window_scroll_bounds H wp)))"
  by (cases "cursor_scroll_range self H cp (initial_scroll_range H vh)")
     (simp add: scroll_range_def window_scroll_range_eq)

text \<open>
  With the window policy on and a window taller than the viewport, the viewport lies
  inside the window exactly when the top row of the window is not above the upper end
  that the cursor leaves.
\<close>

lemma large_window_containment_iff:
  assumes k: "keep_focused_window_visible self" and tall: "H < height wp"
  shows "(ypos wp \<le> vertical_scroll (make_window_visible self H vh wp cp)
          \<and> vertical_scroll (make_window_visible self H vh wp cp) + H \<le> ypos wp + height wp)
       = (ypos wp \<le> snd (cursor_scroll_range self H cp (initial_scroll_range H vh)))"
proof -
  let ?v = "vertical_scroll (make_window_visible self H vh wp cp)"
  let ?a = "fst (cursor_scroll_range self H cp (initial_scroll_range H vh))"
  let ?b = "snd (cursor_scroll_range self H cp (initial_scroll_range H vh))"
  let ?top = "ypos wp + height wp - H"
  have wb: "window_scroll_bounds H wp = (ypos wp, ?top)"
    using tall by (simp add: window_scroll_bounds_def)
  have r: "scroll_range self H vh wp cp = (max ?a (ypos wp), min ?b ?top)"
    by (simp add: scroll_range_with_window [OF k] wb)
  have ends: "?v \<le> snd (scroll_range self H vh wp cp)"
    "(if snd (scroll_range self H vh wp cp) < fst (scroll_range self H vh wp cp)
      then snd (scroll_range self H vh wp cp) else fst (scroll_range self H vh wp cp)) \<le> ?v"
    using vertical_scroll_in_resolved [of self H vh wp cp]
      resolved_scroll_range_ends [of self H vh wp cp]
    by (simp_all only:)
  have hi: "?v \<le> min ?b ?top"
    using ends(1) by (simp only: r snd_conv)
  have lo: "(if min ?b ?top < max ?a (ypos wp) then min ?b ?top else max ?a (ypos wp)) \<le> ?v"
    using ends(2) by (simp only: r fst_conv snd_conv)
  show ?thesis
  proof
    assume "ypos wp \<le> ?v \<and> ?v + H \<le> ypos wp + height wp"
    with hi show "ypos wp \<le> ?b" by linarith
  next
    assume b: "ypos wp \<le> ?b"
    have "ypos wp \<le> min ?b ?top" using b tall by simp
    moreover have "ypos wp \<le> max ?a (ypos wp)" by simp
    ultimately have "ypos wp \<le> ?v" using lo by (simp split: if_splits)
    moreover have "?v \<le> ?top" using hi by simp
    ultimately show "ypos wp \<le> ?v \<and> ?v + H \<le> ypos wp + height wp" by simp
  qed
qed

text \<open>
  Claim C4, as amended. With \<^verbatim>\<open>keep_focused_window_visible\<close> on and a focused
  window of top row \<open>wy\<close> and height \<open>wh\<close>, the range is intersected with
  \<open>[wy + wh - visible_height, wy]\<close> if \<open>wh \<le> visible_height\<close> and with
  \<open>[wy, wy + wh - visible_height]\<close> otherwise. Whenever the range is not empty after all
  the reductions, the resolved scroll puts the rows \<open>[wy, wy + wh)\<close> of the window inside
  the rows \<open>[vertical_scroll, vertical_scroll + visible_height)\<close> of the viewport in the
  first case, and the rows of the viewport inside the rows of the window in the second.
  In the second case the rows of the viewport lie inside the rows of the window exactly
  when \<open>wy\<close> is at most the \<open>max_scroll\<close> that the cursor step leaves, whether the range
  is empty or not.
\<close>

theorem window_scroll_range_containment:
  assumes "keep_focused_window_visible self"
  shows "window_scroll_range self H wp (mn, mx) =
           (if height wp \<le> H then (max mn (ypos wp + height wp - H), min mx (ypos wp))
            else (max mn (ypos wp), min mx (ypos wp + height wp - H)))
       \<and> (fst (scroll_range self H vh wp cp) \<le> snd (scroll_range self H vh wp cp) \<longrightarrow>
           (if height wp \<le> H
            then vertical_scroll (make_window_visible self H vh wp cp) \<le> ypos wp
               \<and> ypos wp + height wp \<le> vertical_scroll (make_window_visible self H vh wp cp) + H
            else ypos wp \<le> vertical_scroll (make_window_visible self H vh wp cp)
               \<and> vertical_scroll (make_window_visible self H vh wp cp) + H
                   \<le> ypos wp + height wp))
       \<and> (H < height wp \<longrightarrow>
           (ypos wp \<le> vertical_scroll (make_window_visible self H vh wp cp)
            \<and> vertical_scroll (make_window_visible self H vh wp cp) + H \<le> ypos wp + height wp)
           = (ypos wp \<le> snd (cursor_scroll_range self H cp (initial_scroll_range H vh))))"
proof (intro conjI impI)
  show "window_scroll_range self H wp (mn, mx) =
          (if height wp \<le> H then (max mn (ypos wp + height wp - H), min mx (ypos wp))
           else (max mn (ypos wp), min mx (ypos wp + height wp - H)))"
    using assms by (simp add: window_scroll_range_eq window_scroll_bounds_def)
next
  let ?v = "vertical_scroll (make_window_visible self H vh wp cp)"
  assume sat: "fst (scroll_range self H vh wp cp) \<le> snd (scroll_range self H vh wp cp)"
  have "fst (scroll_range self H vh wp cp) \<le> ?v \<and> ?v \<le> snd (scroll_range self H vh wp cp)"
    using vertical_scroll_in_resolved [of self H vh wp cp]
    by (simp add: resolved_scroll_range_satisfiable [OF sat])
  with scroll_range_window [OF assms, of H wp vh cp]
  have "fst (window_scroll_bounds H wp) \<le> ?v \<and> ?v \<le> snd (window_scroll_bounds H wp)"
    by linarith
  then show "if height wp \<le> H
        then ?v \<le> ypos wp \<and> ypos wp + height wp \<le> ?v + H
        else ypos wp \<le> ?v \<and> ?v + H \<le> ypos wp + height wp"
    by (simp add: window_scroll_bounds_def split: if_splits)
next
  assume "H < height wp"
  with assms show "(ypos wp \<le> vertical_scroll (make_window_visible self H vh wp cp)
            \<and> vertical_scroll (make_window_visible self H vh wp cp) + H \<le> ypos wp + height wp)
           = (ypos wp \<le> snd (cursor_scroll_range self H cp (initial_scroll_range H vh)))"
    by (rule large_window_containment_iff)
qed

text \<open>
  The theorem at work on a new pane with a viewport of 20 rows on 100 virtual rows: a
  window of 5 rows at row 30 without cursor gives the scroll 15, so that the window is
  the last 5 rows of the viewport; a window of 50 rows at row 30 with the cursor in row
  40 gives the scroll 30, so that the viewport is the first 20 rows of the window. A
  window of 50 rows at row 10 with the cursor on its last row 59 gives the empty range
  \<open>(41, 40)\<close>; the cursor leaves the upper end 58, which is not below the top row 10 of
  the window, and the scroll 40 puts the viewport on the last 20 rows of the window.
\<close>

theorem window_scroll_range_containment_witness:
  "keep_focused_window_visible default_pane
   \<and> fst (scroll_range default_pane 20 100 \<lparr>xpos = 0, ypos = 30, width = 80, height = 5\<rparr> None)
       \<le> snd (scroll_range default_pane 20 100 \<lparr>xpos = 0, ypos = 30, width = 80, height = 5\<rparr> None)
   \<and> vertical_scroll (make_window_visible default_pane 20 100
        \<lparr>xpos = 0, ypos = 30, width = 80, height = 5\<rparr> None) = 15
   \<and> vertical_scroll (make_window_visible default_pane 20 100
        \<lparr>xpos = 0, ypos = 30, width = 80, height = 5\<rparr> None) \<le> 30
   \<and> 30 + 5 \<le> vertical_scroll (make_window_visible default_pane 20 100
        \<lparr>xpos = 0, ypos = 30, width = 80, height = 5\<rparr> None) + 20
   \<and> fst (scroll_range default_pane 20 100 \<lparr>xpos = 0, ypos = 30, width = 80, height = 50\<rparr>
        (Some \<lparr>Point_x = 0, Point_y = 40\<rparr>))
       \<le> snd (scroll_range default_pane 20 100 \<lparr>xpos = 0, ypos = 30, width = 80, height = 50\<rparr>
        (Some \<lparr>Point_x = 0, Point_y = 40\<rparr>))
   \<and> 30 \<le> vertical_scroll (make_window_visible default_pane 20 100
        \<lparr>xpos = 0, ypos = 30, width = 80, height = 50\<rparr> (Some \<lparr>Point_x = 0, Point_y = 40\<rparr>))
   \<and> vertical_scroll (make_window_visible default_pane 20 100
        \<lparr>xpos = 0, ypos = 30, width = 80, height = 50\<rparr> (Some \<lparr>Point_x = 0, Point_y = 40\<rparr>)) + 20
       \<le> 30 + 50
   \<and> scroll_range default_pane 20 100 \<lparr>xpos = 0, ypos = 10, width = 80, height = 50\<rparr>
        (Some \<lparr>Point_x = 0, Point_y = 59\<rparr>) = (41, 40)
   \<and> (20::int) < height \<lparr>xpos = 0, ypos = 10, width = 80, height = 50\<rparr>
   \<and> snd (cursor_scroll_range default_pane 20 (Some \<lparr>Point_x = 0, Point_y = 59\<rparr>)
            (initial_scroll_range 20 100)) = 58
   \<and> 10 \<le> vertical_scroll (make_window_visible default_pane 20 100
        \<lparr>xpos = 0, ypos = 10, width = 80, height = 50\<rparr> (Some \<lparr>Point_x = 0, Point_y = 59\<rparr>))
   \<and> vertical_scroll (make_window_visible default_pane 20 100
        \<lparr>xpos = 0, ypos = 10, width = 80, height = 50\<rparr> (Some \<lparr>Point_x = 0, Point_y = 59\<rparr>)) + 20
       \<le> 10 + 50"
proof -
  have k: "keep_focused_window_visible default_pane"
    by (simp add: pane_defs)
  have s1: "fst (scroll_range default_pane 20 100
               \<lparr>xpos = 0, ypos = 30, width = 80, height = 5\<rparr> None)
          \<le> snd (scroll_range default_pane 20 100
               \<lparr>xpos = 0, ypos = 30, width = 80, height = 5\<rparr> None)"
    by (simp add: resolver_defs pane_defs Let_def)
  have s2: "fst (scroll_range default_pane 20 100
               \<lparr>xpos = 0, ypos = 30, width = 80, height = 50\<rparr> (Some \<lparr>Point_x = 0, Point_y = 40\<rparr>))
          \<le> snd (scroll_range default_pane 20 100
               \<lparr>xpos = 0, ypos = 30, width = 80, height = 50\<rparr> (Some \<lparr>Point_x = 0, Point_y = 40\<rparr>))"
    by (simp add: resolver_defs pane_defs Let_def)
  have v: "vertical_scroll (make_window_visible default_pane 20 100
        \<lparr>xpos = 0, ypos = 30, width = 80, height = 5\<rparr> None) = 15"
    by (simp add: resolver_defs pane_defs Let_def)
  have r3: "scroll_range default_pane 20 100 \<lparr>xpos = 0, ypos = 10, width = 80, height = 50\<rparr>
        (Some \<lparr>Point_x = 0, Point_y = 59\<rparr>) = (41, 40)"
    by (simp add: initial_scroll_range_def cursor_scroll_range_def window_scroll_bounds_def
        window_scroll_range_def scroll_range_def pane_defs Let_def)
  have c3: "snd (cursor_scroll_range default_pane 20 (Some \<lparr>Point_x = 0, Point_y = 59\<rparr>)
            (initial_scroll_range 20 100)) = 58"
    by (simp add: initial_scroll_range_def cursor_scroll_range_def pane_defs Let_def)
  from window_scroll_range_containment
         [OF k, of 20 "\<lparr>xpos = 0, ypos = 30, width = 80, height = 5\<rparr>" 0 80 100 None]
       window_scroll_range_containment
         [OF k, of 20 "\<lparr>xpos = 0, ypos = 30, width = 80, height = 50\<rparr>" 0 80 100
            "Some \<lparr>Point_x = 0, Point_y = 40\<rparr>"]
       window_scroll_range_containment
         [OF k, of 20 "\<lparr>xpos = 0, ypos = 10, width = 80, height = 50\<rparr>" 0 80 100
            "Some \<lparr>Point_x = 0, Point_y = 59\<rparr>"]
       k s1 s2 v r3 c3
  show ?thesis by simp
qed

text \<open>
  Claim C4 as it is written gives the second containment without a condition. It fails
  when the cursor sits on the first row of a window taller than the viewport: on a new
  pane (offsets \<open>{1, 1}\<close>, both policies on) with 20 visible rows, 100 virtual rows, a
  window of 50 rows at row 10 and the cursor in row 10, the cursor asks for a scroll of
  at most 9 and the window for one of at least 10; the resolved scroll is 9, and row 9
  of the viewport is not a row of the window.
\<close>

theorem large_window_containment_counterexample:
  "keep_focused_window_visible default_pane
   \<and> 20 < height \<lparr>xpos = 0, ypos = 10, width = 80, height = 50\<rparr>
   \<and> vertical_scroll (make_window_visible default_pane 20 100
        \<lparr>xpos = 0, ypos = 10, width = 80, height = 50\<rparr> (Some \<lparr>Point_x = 0, Point_y = 10\<rparr>)) = 9
   \<and> \<not> (ypos \<lparr>xpos = 0, ypos = 10, width = 80, height = 50\<rparr>
          \<le> vertical_scroll (make_window_visible default_pane 20 100
               \<lparr>xpos = 0, ypos = 10, width = 80, height = 50\<rparr>
               (Some \<lparr>Point_x = 0, Point_y = 10\<rparr>)))"
  by (simp add: resolver_defs pane_defs Let_def)

text \<open>
  Claim C5, as amended. Whenever \<open>min_scroll > max_scroll\<close> after every enabled
  reduction, the range is collapsed onto \<open>max_scroll\<close> and the resolved scroll is that
  \<open>max_scroll\<close>, the upper end of the reduced range: with
  \<^verbatim>\<open>keep_focused_window_visible\<close> on it is the smaller of the upper end left by the
  cursor and \<open>window_max_scroll\<close>, and with it off it is the upper end left by the
  cursor.
\<close>

theorem collapse_resolves_to_max_scroll:
  assumes "snd (scroll_range self H vh wp cp) < fst (scroll_range self H vh wp cp)"
  shows "resolved_scroll_range self H vh wp cp =
           (snd (scroll_range self H vh wp cp), snd (scroll_range self H vh wp cp))
       \<and> vertical_scroll (make_window_visible self H vh wp cp) =
           snd (scroll_range self H vh wp cp)
       \<and> snd (scroll_range self H vh wp cp) =
           (if keep_focused_window_visible self
            then min (snd (cursor_scroll_range self H cp (initial_scroll_range H vh)))
                     (snd (window_scroll_bounds H wp))
            else snd (cursor_scroll_range self H cp (initial_scroll_range H vh)))"
proof -
  obtain mn mx where r: "scroll_range self H vh wp cp = (mn, mx)"
    by (cases "scroll_range self H vh wp cp")
  with assms have lt: "mx < mn" by simp
  have 1: "resolved_scroll_range self H vh wp cp = (mx, mx)"
    using lt by (simp add: resolved_scroll_range_def r collapse_scroll_range_cases)
  have 2: "vertical_scroll (make_window_visible self H vh wp cp) = mx"
    by (simp add: vertical_scroll_make_window_visible 1 clip_vertical_scroll_point)
  have 3: "snd (scroll_range self H vh wp cp) =
        (if keep_focused_window_visible self
         then min (snd (cursor_scroll_range self H cp (initial_scroll_range H vh)))
                  (snd (window_scroll_bounds H wp))
         else snd (cursor_scroll_range self H cp (initial_scroll_range H vh)))"
    by (cases "cursor_scroll_range self H cp (initial_scroll_range H vh)")
       (simp add: scroll_range_def window_scroll_range_eq)
  show ?thesis using 1 2 3 by (simp add: r)
qed

text \<open>
  The theorem at work: 10 visible rows on 200 virtual rows, a window of 30 rows at row
  40 and the cursor in row 40. The reduced range is \<open>(40, 39)\<close> and the scroll is 39.
\<close>

theorem collapse_resolves_to_max_scroll_witness:
  "snd (scroll_range default_pane 10 200 \<lparr>xpos = 0, ypos = 40, width = 80, height = 30\<rparr>
          (Some \<lparr>Point_x = 5, Point_y = 40\<rparr>))
     < fst (scroll_range default_pane 10 200 \<lparr>xpos = 0, ypos = 40, width = 80, height = 30\<rparr>
          (Some \<lparr>Point_x = 5, Point_y = 40\<rparr>))
   \<and> resolved_scroll_range default_pane 10 200 \<lparr>xpos = 0, ypos = 40, width = 80, height = 30\<rparr>
          (Some \<lparr>Point_x = 5, Point_y = 40\<rparr>) = (39, 39)
   \<and> vertical_scroll (make_window_visible default_pane 10 200
          \<lparr>xpos = 0, ypos = 40, width = 80, height = 30\<rparr> (Some \<lparr>Point_x = 5, Point_y = 40\<rparr>)) = 39"
proof -
  have r: "scroll_range default_pane 10 200 \<lparr>xpos = 0, ypos = 40, width = 80, height = 30\<rparr>
             (Some \<lparr>Point_x = 5, Point_y = 40\<rparr>) = (40, 39)"
    by (simp add: initial_scroll_range_def cursor_scroll_range_def window_scroll_bounds_def
        window_scroll_range_def scroll_range_def pane_defs Let_def)
  then have h: "snd (scroll_range default_pane 10 200
                       \<lparr>xpos = 0, ypos = 40, width = 80, height = 30\<rparr>
                       (Some \<lparr>Point_x = 5, Point_y = 40\<rparr>))
                < fst (scroll_range default_pane 10 200
                       \<lparr>xpos = 0, ypos = 40, width = 80, height = 30\<rparr>
                       (Some \<lparr>Point_x = 5, Point_y = 40\<rparr>))"
    by simp
  from collapse_resolves_to_max_scroll [OF h] h r show ?thesis by simp
qed

text \<open>
  Claim C5 as it is written says that the collapsed scroll is the bound of the window.
  In the scene above the window admits the scrolls from 40 to 60, the cursor asks for
  at most \<open>40 - 1 = 39\<close>, and the resolved scroll is 39: the upper bound of the cursor,
  neither bound of the window, and one row above the window.
\<close>

theorem collapse_window_bound_counterexample:
  "snd (scroll_range default_pane 10 200 \<lparr>xpos = 0, ypos = 40, width = 80, height = 30\<rparr>
          (Some \<lparr>Point_x = 5, Point_y = 40\<rparr>))
     < fst (scroll_range default_pane 10 200 \<lparr>xpos = 0, ypos = 40, width = 80, height = 30\<rparr>
          (Some \<lparr>Point_x = 5, Point_y = 40\<rparr>))
   \<and> window_scroll_bounds 10 \<lparr>xpos = 0, ypos = 40, width = 80, height = 30\<rparr> = (40, 60)
   \<and> vertical_scroll (make_window_visible default_pane 10 200
          \<lparr>xpos = 0, ypos = 40, width = 80, height = 30\<rparr> (Some \<lparr>Point_x = 5, Point_y = 40\<rparr>))
       = Point_y \<lparr>Point_x = 5, Point_y = 40\<rparr> - top_offset (scroll_offsets default_pane)
   \<and> vertical_scroll (make_window_visible default_pane 10 200
          \<lparr>xpos = 0, ypos = 40, width = 80, height = 30\<rparr> (Some \<lparr>Point_x = 5, Point_y = 40\<rparr>))
       \<noteq> fst (window_scroll_bounds 10 \<lparr>xpos = 0, ypos = 40, width = 80, height = 30\<rparr>)
   \<and> vertical_scroll (make_window_visible default_pane 10 200
          \<lparr>xpos = 0, ypos = 40, width = 80, height = 30\<rparr> (Some \<lparr>Point_x = 5, Point_y = 40\<rparr>))
       \<noteq> snd (window_scroll_bounds 10 \<lparr>xpos = 0, ypos = 40, width = 80, height = 30\<rparr>)"
  by (simp add: resolver_defs pane_defs Let_def)

text \<open>
  Claim C7. The range that the last two statements of the resolver clip into is never
  empty. A scroll that lies in it is left as it is; a scroll above it becomes its upper
  end \<open>max_scroll\<close>; a scroll below it becomes its lower end \<open>min_scroll\<close>.
\<close>

theorem clip_is_fixed_point_in_range:
  "fst (resolved_scroll_range self H vh wp cp) \<le> snd (resolved_scroll_range self H vh wp cp)
   \<and> (fst (resolved_scroll_range self H vh wp cp) \<le> vertical_scroll self
        \<and> vertical_scroll self \<le> snd (resolved_scroll_range self H vh wp cp)
      \<longrightarrow> vertical_scroll (make_window_visible self H vh wp cp) = vertical_scroll self)
   \<and> (snd (resolved_scroll_range self H vh wp cp) < vertical_scroll self
      \<longrightarrow> vertical_scroll (make_window_visible self H vh wp cp) =
            snd (resolved_scroll_range self H vh wp cp))
   \<and> (vertical_scroll self < fst (resolved_scroll_range self H vh wp cp)
      \<longrightarrow> vertical_scroll (make_window_visible self H vh wp cp) =
            fst (resolved_scroll_range self H vh wp cp))"
proof -
  obtain mn mx where r: "resolved_scroll_range self H vh wp cp = (mn, mx)"
    by (cases "resolved_scroll_range self H vh wp cp")
  have "mn \<le> mx"
    using resolved_scroll_range_nonempty [of self H vh wp cp] r by simp
  then show ?thesis
    by (simp add: vertical_scroll_make_window_visible r clip_vertical_scroll_def Let_def)
qed

text \<open>
  The theorem at work: 20 visible rows on 100 virtual rows and a window of 5 rows at
  row 30 give the range \<open>[15, 30]\<close>. The scroll 20 stays, the scroll 50 becomes 30 and
  the scroll 0 becomes 15.
\<close>

theorem clip_is_fixed_point_in_range_witness:
  "resolved_scroll_range (default_pane\<lparr>vertical_scroll := 20\<rparr>) 20 100
       \<lparr>xpos = 0, ypos = 30, width = 80, height = 5\<rparr> None = (15, 30)
   \<and> vertical_scroll (make_window_visible (default_pane\<lparr>vertical_scroll := 20\<rparr>) 20 100
       \<lparr>xpos = 0, ypos = 30, width = 80, height = 5\<rparr> None) = 20
   \<and> vertical_scroll (make_window_visible (default_pane\<lparr>vertical_scroll := 50\<rparr>) 20 100
       \<lparr>xpos = 0, ypos = 30, width = 80, height = 5\<rparr> None) = 30
   \<and> vertical_scroll (make_window_visible (default_pane\<lparr>vertical_scroll := 0\<rparr>) 20 100
       \<lparr>xpos = 0, ypos = 30, width = 80, height = 5\<rparr> None) = 15"
proof -
  have r: "\<And>v. resolved_scroll_range (default_pane\<lparr>vertical_scroll := v\<rparr>) 20 100
             \<lparr>xpos = 0, ypos = 30, width = 80, height = 5\<rparr> None = (15, 30)"
    by (simp add: initial_scroll_range_def cursor_scroll_range_def window_scroll_bounds_def
        window_scroll_range_def scroll_range_def collapse_scroll_range_def
        resolved_scroll_range_def pane_defs Let_def)
  from clip_is_fixed_point_in_range
         [of "default_pane\<lparr>vertical_scroll := 20\<rparr>" 20 100
            "\<lparr>xpos = 0, ypos = 30, width = 80, height = 5\<rparr>" None]
       clip_is_fixed_point_in_range
         [of "default_pane\<lparr>vertical_scroll := 50\<rparr>" 20 100
            "\<lparr>xpos = 0, ypos = 30, width = 80, height = 5\<rparr>" None]
       clip_is_fixed_point_in_range
         [of "default_pane\<lparr>vertical_scroll := 0\<rparr>" 20 100
            "\<lparr>xpos = 0, ypos = 30, width = 80, height = 5\<rparr>" None]
  show ?thesis by (simp add: r)
qed


section \<open>Properties of \<^verbatim>\<open>write_to_screen\<close>\<close>

lemma set_range_py: "set (range_py n) = {k. 0 \<le> k \<and> k < n}"
  by (auto simp: range_py_def)

lemma copy_cell_pair:
  "copy_cell x0 tr tz x (row, z) =
     (row(x + x0 := tr x), (case tz x of None \<Rightarrow> z | Some e \<Rightarrow> z(x + x0 \<mapsto> e)))"
  by (simp add: copy_cell_def)

text \<open>The inner loop, in closed form.\<close>

lemma fold_copy_cell:
  "fold (copy_cell x0 tr tz) xs (row, z) =
     ((\<lambda>k. if k - x0 \<in> set xs then tr (k - x0) else row k),
      (\<lambda>k. if k - x0 \<in> set xs \<and> tz (k - x0) \<noteq> None then tz (k - x0) else z k))"
proof (induction xs arbitrary: row z)
  case Nil
  show ?case by simp
next
  case (Cons x xs)
  have *: "\<And>k. (k = x + x0) = (k - x0 = x)" by auto
  show ?case
    by (cases "tz x") (auto simp: copy_cell_pair Cons.IH fun_eq_iff *)
qed

lemma copy_line_eq:
  "copy_line t vs wp y (b, e) =
     (b(y + ypos wp :=
          (\<lambda>k. if k - xpos wp \<in> set (range_py (width wp))
                then data_buffer t (y + vs) (k - xpos wp) else b (y + ypos wp) k)),
      e(y + ypos wp :=
          (\<lambda>k. if k - xpos wp \<in> set (range_py (width wp))
                   \<and> zero_width_escapes t (y + vs) (k - xpos wp) \<noteq> None
                then zero_width_escapes t (y + vs) (k - xpos wp) else e (y + ypos wp) k)))"
  by (simp add: copy_line_def Let_def fold_copy_cell)

text \<open>The outer loop, in closed form.\<close>

lemma fold_copy_line:
  "fold (copy_line t vs wp) ys (b, e) =
     ((\<lambda>r k. if r - ypos wp \<in> set ys \<and> k - xpos wp \<in> set (range_py (width wp))
              then data_buffer t (r - ypos wp + vs) (k - xpos wp) else b r k),
      (\<lambda>r k. if r - ypos wp \<in> set ys \<and> k - xpos wp \<in> set (range_py (width wp))
                 \<and> zero_width_escapes t (r - ypos wp + vs) (k - xpos wp) \<noteq> None
              then zero_width_escapes t (r - ypos wp + vs) (k - xpos wp) else e r k))"
proof (induction ys arbitrary: b e)
  case Nil
  show ?case by simp
next
  case (Cons y ys)
  have *: "\<And>r. (r = y + ypos wp) = (r - ypos wp = y)" by auto
  show ?case
    by (auto simp: copy_line_eq Cons.IH fun_eq_iff *)
qed

lemma copy_viewport_eq:
  "copy_viewport t vs wp (b, e) =
     ((\<lambda>r k. if 0 \<le> r - ypos wp \<and> r - ypos wp < height wp
                 \<and> 0 \<le> k - xpos wp \<and> k - xpos wp < width wp
              then data_buffer t (r - ypos wp + vs) (k - xpos wp) else b r k),
      (\<lambda>r k. if 0 \<le> r - ypos wp \<and> r - ypos wp < height wp
                 \<and> 0 \<le> k - xpos wp \<and> k - xpos wp < width wp
                 \<and> zero_width_escapes t (r - ypos wp + vs) (k - xpos wp) \<noteq> None
              then zero_width_escapes t (r - ypos wp + vs) (k - xpos wp) else e r k))"
  by (simp add: copy_viewport_def fold_copy_line set_range_py)

lemma pane_after_eq:
  "pane_after env self screen mh wp ps eb z =
     scroll_to_focused_window env self (render_virtual_screen env self wp ps eb z) wp
       (virtual_height_of env self wp)"
  by (simp add: write_to_screen_def Let_def split: prod.splits)

lemma data_buffer_after:
  "data_buffer (screen_after env self screen mh wp ps eb z) =
     fst (copy_viewport (render_virtual_screen env self wp ps eb z)
            (vertical_scroll (pane_after env self screen mh wp ps eb z)) wp
            (data_buffer screen, zero_width_escapes screen))"
  by (simp add: write_to_screen_def Let_def split: prod.splits)

lemma zero_width_escapes_after:
  "zero_width_escapes (screen_after env self screen mh wp ps eb z) =
     snd (copy_viewport (render_virtual_screen env self wp ps eb z)
            (vertical_scroll (pane_after env self screen mh wp ps eb z)) wp
            (data_buffer screen, zero_width_escapes screen))"
  by (simp add: write_to_screen_def Let_def split: prod.splits)

lemma registries_after:
  "visible_windows_to_write_positions (screen_after env self screen mh wp ps eb z) =
     merge_items (translate_write_position (xpos wp) (ypos wp)
                    (vertical_scroll (pane_after env self screen mh wp ps eb z)))
       (visible_windows_to_write_positions (render_virtual_screen env self wp ps eb z))
       (visible_windows_to_write_positions screen)"
  "cursor_positions (screen_after env self screen mh wp ps eb z) =
     merge_items (translate_point (xpos wp) (ypos wp)
                    (vertical_scroll (pane_after env self screen mh wp ps eb z)))
       (cursor_positions (render_virtual_screen env self wp ps eb z))
       (cursor_positions screen)"
  "menu_positions (screen_after env self screen mh wp ps eb z) =
     merge_items (translate_point (xpos wp) (ypos wp)
                    (vertical_scroll (pane_after env self screen mh wp ps eb z)))
       (menu_positions (render_virtual_screen env self wp ps eb z))
       (menu_positions screen)"
  by (simp_all add: write_to_screen_def Let_def split: prod.splits)

text \<open>What the scene renders and where it scrolls a new pane.\<close>

lemma render_scene:
  "render_virtual_screen (scene pref win pos cur focused) self wp ps eb z =
     fst (window_content win pos cur (blank_Screen \<lparr>char = '' '', style = ps\<rparr>) 0
            \<lparr>xpos = 0, ypos = 0, width = width wp,
             height = virtual_height_of (scene pref win pos cur focused) self wp\<rparr>
            ps eb z)"
  by (simp add: render_virtual_screen_def scene_def Let_def split: prod.splits)

lemma virtual_height_of_scene:
  "virtual_height_of (scene pref win pos cur focused) self wp =
     min (max pref (height wp)) (max_available_height self)"
  by (simp add: virtual_height_of_def scene_def Let_def)

lemma current_window_scene: "current_window (scene pref win pos cur focused) = focused"
  by (simp add: scene_def)

lemmas scene_simps = render_scene virtual_height_of_scene current_window_scene
  window_content_def blank_Screen_def

text \<open>
  A focused window can have a negative top row on the screen it is registered on: line
  180 stores \<open>ypos + ypos - vertical_scroll\<close> without truncation. A pane of 10 rows at
  the origin whose window has 40 rows and the cursor in row 39 scrolls to 30 and
  registers that window at row \<open>-30\<close> of the screen it is written to, which is the
  virtual screen of an enclosing pane.
\<close>

lemma nested_pane_registers_negative_row:
  "visible_windows_to_write_positions
     (screen_after
        (scene 40 7 \<lparr>xpos = 0, ypos = 0, width = 10, height = 40\<rparr>
           (Some \<lparr>Point_x = 0, Point_y = 39\<rparr>) 7)
        default_pane (blank_Screen c) 0 \<lparr>xpos = 0, ypos = 0, width = 10, height = 10\<rparr>
        [] False None) 7
   = Some \<lparr>xpos = 0, ypos = - 30, width = 10, height = 40\<rparr>"
  by (simp add: registries_after merge_items_def translate_write_position_def pane_after_eq
      scene_simps scroll_to_focused_window_def resolver_defs pane_defs Let_def)

text \<open>
  Claim C1. The claim is that the scroll lies in \<open>[0, virtual_height - visible_height]\<close>
  after every call in which the focused window is found, when that interval is not
  empty. The resolver starts from that interval as the maximum allowed range and guards
  the upper end with \<open>max 0\<close> where the cursor reduces it, but not where the window
  reduces it: a focused window whose top row is negative pulls \<open>max_scroll\<close>, and then
  the scroll, below 0. Here a new pane renders 20 rows of a content of 100 rows whose
  focused window has 3 rows and the top row \<open>-5\<close>: the interval is \<open>[0, 80]\<close> and the
  scroll after the call is \<open>-5\<close>. By \<open>make_window_visible_in_range\<close> the scroll does lie
  in the interval when the top row of the focused window is not negative.
\<close>

theorem negative_window_row_gives_negative_scroll:
  "visible_windows_to_write_positions
     (render_virtual_screen
        (scene 100 7 \<lparr>xpos = 0, ypos = - 5, width = 10, height = 3\<rparr> None 7) default_pane
        \<lparr>xpos = 0, ypos = 0, width = 10, height = 20\<rparr> [] False None) 7
     = Some \<lparr>xpos = 0, ypos = - 5, width = 10, height = 3\<rparr>
   \<and> virtual_height_of (scene 100 7 \<lparr>xpos = 0, ypos = - 5, width = 10, height = 3\<rparr> None 7)
       default_pane \<lparr>xpos = 0, ypos = 0, width = 10, height = 20\<rparr> = 100
   \<and> vertical_scroll
       (pane_after (scene 100 7 \<lparr>xpos = 0, ypos = - 5, width = 10, height = 3\<rparr> None 7)
          default_pane (blank_Screen \<lparr>char = '' '', style = []\<rparr>) 0
          \<lparr>xpos = 0, ypos = 0, width = 10, height = 20\<rparr> [] False None) = - 5"
  by (simp add: pane_after_eq scene_simps scroll_to_focused_window_def resolver_defs pane_defs
      Let_def)


lemmas example_defs = viewport_def dotted_screen_def focused_scene_def unfocused_scene_def

lemma focused_scene_scroll:
  "vertical_scroll (pane_after focused_scene default_pane screen mh viewport [] False None) = 15"
  by (simp add: pane_after_eq example_defs scene_simps scroll_to_focused_window_def
      resolver_defs pane_defs Let_def)

text \<open>
  Claim C6, as amended. The height of the virtual screen is
  \<open>min (max preferred height) max_available_height\<close>, with \<open>preferred\<close> the preferred
  height of the content for the width of the write position and \<open>height\<close> the height
  of the write position. It is never more than \<^verbatim>\<open>max_available_height\<close>, and it is
  at least the visible height exactly when \<^verbatim>\<open>max_available_height\<close> is.
\<close>

theorem virtual_height_of_bounds:
  "virtual_height_of env self wp =
     min (max (content_preferred_height env (width wp) (max_available_height self)) (height wp))
       (max_available_height self)
   \<and> virtual_height_of env self wp \<le> max_available_height self
   \<and> (height wp \<le> virtual_height_of env self wp) = (height wp \<le> max_available_height self)"
  by (auto simp add: virtual_height_of_def Let_def)

text \<open>
  Claim C6 as it is written says that the virtual height is at least the visible height
  for every configured \<^verbatim>\<open>max_available_height\<close>. A pane configured with
  \<^verbatim>\<open>max_available_height = 10\<close> that is given 20 rows has a virtual screen of 10
  rows.
\<close>

theorem virtual_height_below_visible_counterexample:
  "virtual_height_of (scene 5 7 \<lparr>xpos = 0, ypos = 0, width = 10, height = 5\<rparr> None 7)
     (ScrollablePane_init None True True 10) viewport = 10
   \<and> height viewport = 20
   \<and> \<not> height viewport
         \<le> virtual_height_of (scene 5 7 \<lparr>xpos = 0, ypos = 0, width = 10, height = 5\<rparr> None 7)
             (ScrollablePane_init None True True 10) viewport"
  by (simp add: virtual_height_of_scene viewport_def ScrollablePane_init_def)

text \<open>
  Claim C2. For a write position \<open>(X, Y, W, H)\<close> and the scroll \<open>S\<close> of the pane after
  the call, every \<open>0 \<le> x < W\<close> and \<open>0 \<le> y < H\<close>: the cell \<open>(X + x, Y + y)\<close> of the real
  screen after the call is the cell \<open>(x, y + S)\<close> of the virtual screen, and a zero-width
  escape of the virtual screen in row \<open>y + S\<close>, column \<open>x\<close> is in row \<open>Y + y\<close>, column
  \<open>X + x\<close> of the real screen.
\<close>

theorem write_to_screen_copies_viewport:
  assumes "0 \<le> x" and "x < width wp" and "0 \<le> y" and "y < height wp"
  shows "data_buffer (screen_after env self screen mh wp ps eb z) (ypos wp + y) (xpos wp + x) =
           data_buffer (render_virtual_screen env self wp ps eb z)
             (y + vertical_scroll (pane_after env self screen mh wp ps eb z)) x
       \<and> (\<forall>e. zero_width_escapes (render_virtual_screen env self wp ps eb z)
                 (y + vertical_scroll (pane_after env self screen mh wp ps eb z)) x = Some e \<longrightarrow>
               zero_width_escapes (screen_after env self screen mh wp ps eb z)
                 (ypos wp + y) (xpos wp + x) = Some e)"
  using assms
  by (simp add: data_buffer_after zero_width_escapes_after copy_viewport_eq)

text \<open>
  The theorem at work: the pane scrolls to 15, so that row 15 of the viewport shows row
  30 of the virtual screen, where the window starts. Its first cell and the escape on
  it arrive in row \<open>3 + 15\<close>, column \<open>2 + 0\<close> of the real screen.
\<close>

theorem write_to_screen_copies_viewport_witness:
  "(0::int) \<le> 0 \<and> 0 < width viewport \<and> (0::int) \<le> 15 \<and> 15 < height viewport
   \<and> zero_width_escapes (render_virtual_screen focused_scene default_pane viewport [] False None)
        (15 + vertical_scroll (pane_after focused_scene default_pane dotted_screen 0 viewport
                                 [] False None)) 0 = Some ''esc''
   \<and> data_buffer (screen_after focused_scene default_pane dotted_screen 0 viewport [] False None)
        (3 + 15) (2 + 0) = \<lparr>char = ''#'', style = []\<rparr>
   \<and> zero_width_escapes
        (screen_after focused_scene default_pane dotted_screen 0 viewport [] False None)
        (3 + 15) (2 + 0) = Some ''esc''"
proof -
  have h: "(0::int) \<le> 0" "0 < width viewport" "(0::int) \<le> 15" "15 < height viewport"
    by (simp_all add: viewport_def)
  have t: "data_buffer (render_virtual_screen focused_scene default_pane viewport [] False None)
             30 0 = \<lparr>char = ''#'', style = []\<rparr>"
          "zero_width_escapes
             (render_virtual_screen focused_scene default_pane viewport [] False None)
             30 0 = Some ''esc''"
    by (simp_all add: focused_scene_def scene_simps)
  have p: "xpos viewport = 2" "ypos viewport = 3"
    by (simp_all add: viewport_def)
  from write_to_screen_copies_viewport
         [OF h, of focused_scene default_pane dotted_screen 0 "[]" False None]
  show ?thesis
    using h t by (simp add: focused_scene_scroll p)
qed

text \<open>
  Claim C8. When the focused window is not in the registry of the virtual screen, the
  pane after the call is the pane before it, so its scroll is unchanged, and the
  viewport is copied with that scroll: for \<open>0 \<le> x < W\<close> and \<open>0 \<le> y < H\<close> the cell
  \<open>(X + x, Y + y)\<close> of the real screen is the cell \<open>(x, y + vertical_scroll)\<close> of the
  virtual screen, with the scroll of before the call. The lookup that raises \<^verbatim>\<open>KeyError\<close> in the
  source is the \<open>None\<close> case of the model, and \<^verbatim>\<open>write_to_screen\<close> has no other
  statement that raises: the model is a total function.
\<close>

theorem unfocused_keeps_vertical_scroll:
  assumes "visible_windows_to_write_positions (render_virtual_screen env self wp ps eb z)
             (current_window env) = None"
  shows "pane_after env self screen mh wp ps eb z = self
       \<and> vertical_scroll (pane_after env self screen mh wp ps eb z) = vertical_scroll self
       \<and> (0 \<le> x \<and> x < width wp \<and> 0 \<le> y \<and> y < height wp \<longrightarrow>
            data_buffer (screen_after env self screen mh wp ps eb z) (ypos wp + y) (xpos wp + x) =
              data_buffer (render_virtual_screen env self wp ps eb z) (y + vertical_scroll self) x)"
proof -
  have 1: "pane_after env self screen mh wp ps eb z = self"
    using assms by (simp add: pane_after_eq scroll_to_focused_window_def Let_def)
  have 2: "data_buffer (screen_after env self screen mh wp ps eb z) =
             fst (copy_viewport (render_virtual_screen env self wp ps eb z)
                    (vertical_scroll self) wp (data_buffer screen, zero_width_escapes screen))"
    using data_buffer_after [of env self screen mh wp ps eb z] by (simp only: 1)
  show ?thesis
    by (simp add: 1 2 copy_viewport_eq)
qed

text \<open>
  The theorem at work: the focus is on window 8, which the content does not draw. A
  pane scrolled to 28 stays there, and row 2 of the viewport shows row 30 of the
  virtual screen.
\<close>

theorem unfocused_keeps_vertical_scroll_witness:
  "visible_windows_to_write_positions
     (render_virtual_screen unfocused_scene (default_pane\<lparr>vertical_scroll := 28\<rparr>) viewport
        [] False None) (current_window unfocused_scene) = None
   \<and> vertical_scroll (pane_after unfocused_scene (default_pane\<lparr>vertical_scroll := 28\<rparr>)
        dotted_screen 0 viewport [] False None) = 28
   \<and> data_buffer (screen_after unfocused_scene (default_pane\<lparr>vertical_scroll := 28\<rparr>)
        dotted_screen 0 viewport [] False None) (3 + 2) (2 + 0) = \<lparr>char = ''#'', style = []\<rparr>"
proof -
  have h: "visible_windows_to_write_positions
     (render_virtual_screen unfocused_scene (default_pane\<lparr>vertical_scroll := 28\<rparr>) viewport
        [] False None) (current_window unfocused_scene) = None"
    by (simp add: unfocused_scene_def scene_simps)
  have t: "data_buffer (render_virtual_screen unfocused_scene
             (default_pane\<lparr>vertical_scroll := 28\<rparr>) viewport [] False None) 30 0
           = \<lparr>char = ''#'', style = []\<rparr>"
    by (simp add: unfocused_scene_def scene_simps)
  have p: "xpos viewport = 2" "ypos viewport = 3" "width viewport = 10" "height viewport = 20"
    by (simp_all add: viewport_def)
  from unfocused_keeps_vertical_scroll [OF h, of dotted_screen 0 0 2]
  show ?thesis
    using h t by (simp add: p)
qed

text \<open>
  Claim C9. Every entry of the virtual screen's registry of write positions, and every
  cursor and menu point, is stored in the real screen under the same window with
  \<open>x' = x + xpos\<close> and \<open>y' = y + ypos - vertical_scroll\<close>, where \<open>xpos\<close> and \<open>ypos\<close>
  are those of the write position of the call and \<open>vertical_scroll\<close> is that of the pane
  after the call; the width and the height of a write position are stored as they are.
\<close>

theorem registries_are_translated:
  "(visible_windows_to_write_positions (render_virtual_screen env self wp ps eb z) w = Some p \<longrightarrow>
      visible_windows_to_write_positions (screen_after env self screen mh wp ps eb z) w =
        Some \<lparr>xpos = xpos p + xpos wp,
              ypos = ypos p + ypos wp
                       - vertical_scroll (pane_after env self screen mh wp ps eb z),
              width = width p, height = height p\<rparr>)
   \<and> (cursor_positions (render_virtual_screen env self wp ps eb z) w = Some c \<longrightarrow>
      cursor_positions (screen_after env self screen mh wp ps eb z) w =
        Some \<lparr>Point_x = Point_x c + xpos wp,
              Point_y = Point_y c + ypos wp
                          - vertical_scroll (pane_after env self screen mh wp ps eb z)\<rparr>)
   \<and> (menu_positions (render_virtual_screen env self wp ps eb z) w = Some m \<longrightarrow>
      menu_positions (screen_after env self screen mh wp ps eb z) w =
        Some \<lparr>Point_x = Point_x m + xpos wp,
              Point_y = Point_y m + ypos wp
                          - vertical_scroll (pane_after env self screen mh wp ps eb z)\<rparr>)"
  by (simp add: registries_after merge_items_def translate_write_position_def
      translate_point_def)

text \<open>
  The theorem at work: with the scroll 15 and the viewport at \<open>(2, 3)\<close>, the window at
  row 30 is registered at \<open>(2, 18)\<close> with its 10 columns and 5 rows, and its cursor and
  menu at \<open>(3, 31)\<close> are registered at \<open>(5, 19)\<close>.
\<close>

theorem registries_are_translated_witness:
  "visible_windows_to_write_positions
     (render_virtual_screen focused_scene default_pane viewport [] False None) 7
     = Some \<lparr>xpos = 0, ypos = 30, width = 10, height = 5\<rparr>
   \<and> cursor_positions (render_virtual_screen focused_scene default_pane viewport [] False None) 7
     = Some \<lparr>Point_x = 3, Point_y = 31\<rparr>
   \<and> menu_positions (render_virtual_screen focused_scene default_pane viewport [] False None) 7
     = Some \<lparr>Point_x = 3, Point_y = 31\<rparr>
   \<and> visible_windows_to_write_positions
       (screen_after focused_scene default_pane dotted_screen 0 viewport [] False None) 7
     = Some \<lparr>xpos = 2, ypos = 18, width = 10, height = 5\<rparr>
   \<and> cursor_positions
       (screen_after focused_scene default_pane dotted_screen 0 viewport [] False None) 7
     = Some \<lparr>Point_x = 5, Point_y = 19\<rparr>
   \<and> menu_positions
       (screen_after focused_scene default_pane dotted_screen 0 viewport [] False None) 7
     = Some \<lparr>Point_x = 5, Point_y = 19\<rparr>"
proof -
  have t: "visible_windows_to_write_positions
     (render_virtual_screen focused_scene default_pane viewport [] False None) 7
     = Some \<lparr>xpos = 0, ypos = 30, width = 10, height = 5\<rparr>"
    "cursor_positions (render_virtual_screen focused_scene default_pane viewport [] False None) 7
     = Some \<lparr>Point_x = 3, Point_y = 31\<rparr>"
    "menu_positions (render_virtual_screen focused_scene default_pane viewport [] False None) 7
     = Some \<lparr>Point_x = 3, Point_y = 31\<rparr>"
    by (simp_all add: focused_scene_def scene_simps)
  have p: "xpos viewport = 2" "ypos viewport = 3"
    by (simp_all add: viewport_def)
  from registries_are_translated
         [of focused_scene default_pane viewport "[]" False None 7
            "\<lparr>xpos = 0, ypos = 30, width = 10, height = 5\<rparr>" dotted_screen 0
            "\<lparr>Point_x = 3, Point_y = 31\<rparr>" "\<lparr>Point_x = 3, Point_y = 31\<rparr>"]
  show ?thesis
    using t by (simp add: focused_scene_scroll p)
qed

text \<open>
  Claim C10. The call leaves every cell and every zero-width escape of the real screen
  outside the rectangle of the write position as it was, and returns the caller's mouse
  handlers as they were: the content is given a fresh table, which is dropped.
\<close>

theorem write_to_screen_frame:
  "mouse_handlers_after env self screen mh wp ps eb z = mh
   \<and> (px < xpos wp \<or> xpos wp + width wp \<le> px \<or> py < ypos wp \<or> ypos wp + height wp \<le> py \<longrightarrow>
        data_buffer (screen_after env self screen mh wp ps eb z) py px = data_buffer screen py px
      \<and> zero_width_escapes (screen_after env self screen mh wp ps eb z) py px =
          zero_width_escapes screen py px)"
proof -
  have "mouse_handlers_after env self screen mh wp ps eb z = mh"
    by (simp add: write_to_screen_def Let_def split: prod.splits)
  then show ?thesis
    by (auto simp add: data_buffer_after zero_width_escapes_after copy_viewport_eq)
qed

text \<open>
  The theorem at work: the cell at \<open>(12, 18)\<close> is in the row in which the window's first
  row arrives, one column to the right of the viewport, and keeps its dot; the caller's
  table keeps its 4 handlers, although the content registers one in the table it is
  given.
\<close>

theorem write_to_screen_frame_witness:
  "xpos viewport + width viewport \<le> 12
   \<and> snd (content_write_to_screen focused_scene dotted_screen 4 viewport [] False None) = 5
   \<and> mouse_handlers_after focused_scene default_pane dotted_screen 4 viewport [] False None = 4
   \<and> data_buffer (screen_after focused_scene default_pane dotted_screen 4 viewport [] False None)
        18 12 = \<lparr>char = ''.'', style = []\<rparr>
   \<and> zero_width_escapes
        (screen_after focused_scene default_pane dotted_screen 4 viewport [] False None)
        18 12 = None"
proof -
  have h: "xpos viewport + width viewport \<le> 12"
    by (simp add: viewport_def)
  have c: "snd (content_write_to_screen focused_scene dotted_screen 4 viewport [] False None) = 5"
    by (simp add: focused_scene_def scene_def window_content_def)
  have d: "data_buffer dotted_screen 18 12 = \<lparr>char = ''.'', style = []\<rparr>"
          "zero_width_escapes dotted_screen 18 12 = None"
    by (simp_all add: dotted_screen_def blank_Screen_def)
  from write_to_screen_frame
         [of focused_scene default_pane dotted_screen 4 viewport "[]" False None 12 18]
  show ?thesis
    using h c d by simp
qed


end
